theory Spec2Isabelle
  imports
    Main
    "HOL-Library.Multiset"
    "HOL-Library.Char_ord"
    "HOL-Library.List_Lexorder"
    "HOL-Library.Product_Lexorder"
    "HOL-Library.AList"
    "HOL-Library.Word"
begin

section \<open>The task manager: data model\<close>

text \<open>
  The engine of \<^verbatim>\<open>task_manager.py\<close> keeps its tasks in one SQLite table and builds
  \<^verbatim>\<open>Task\<close> objects from its rows. The model has both levels: a \<open>row\<close> is what the table
  holds (priority and status are TEXT columns, so any text fits), a \<open>Task\<close> is the dataclass
  (priority and status are members of the two enumerations).

  Texts are \<open>string\<close>s: a text is the list of the bytes of its UTF-8 encoding, the form
  in which SQLite holds it. SQLite compares TEXT values with the BINARY collation, that
  is bytewise, which is the lexicographic order of \<open>char list\<close>. Integers of Python are
  \<open>int\<close>; the values of an INTEGER column are signed 64-bit words, read with \<open>sint\<close>.
  Timestamps (\<^verbatim>\<open>datetime.now().isoformat()\<close>) and today's date are read from the clock
  in the source; here they are arguments.

  Three exceptions can leave the engine: \<^verbatim>\<open>ValueError\<close> from the enumerations,
  \<^verbatim>\<open>OverflowError\<close> from the database interface when a Python integer does not fit an
  SQLite INTEGER, and \<^verbatim>\<open>sqlite3.OperationalError\<close> from SQLite itself, which the model
  has for an exhausted rowid sequence (\<^verbatim>\<open>SQLITE_FULL\<close>) and for a \<^verbatim>\<open>LIKE\<close> pattern
  beyond the length limit. Failures of the file system are not part of the model.
\<close>

datatype Priority = LOW | MEDIUM | HIGH | URGENT

datatype Status = PENDING | IN_PROGRESS | DONE | CANCELLED

datatype error = ValueError | OverflowError | OperationalError

fun Priority_value :: "Priority \<Rightarrow> string" where
  "Priority_value LOW = ''low''"
| "Priority_value MEDIUM = ''medium''"
| "Priority_value HIGH = ''high''"
| "Priority_value URGENT = ''urgent''"

fun Status_value :: "Status \<Rightarrow> string" where
  "Status_value PENDING = ''pending''"
| "Status_value IN_PROGRESS = ''in_progress''"
| "Status_value DONE = ''done''"
| "Status_value CANCELLED = ''cancelled''"

text \<open>\<^verbatim>\<open>Priority(s)\<close> and \<^verbatim>\<open>Status(s)\<close>: the member with that value; \<open>None\<close> is the
  \<^verbatim>\<open>ValueError\<close> the enumeration raises for any other text.\<close>

definition Priority_of :: "string \<Rightarrow> Priority option" where
  "Priority_of s =
     (if s = ''low'' then Some LOW
      else if s = ''medium'' then Some MEDIUM
      else if s = ''high'' then Some HIGH
      else if s = ''urgent'' then Some URGENT
      else None)"

definition Status_of :: "string \<Rightarrow> Status option" where
  "Status_of s =
     (if s = ''pending'' then Some PENDING
      else if s = ''in_progress'' then Some IN_PROGRESS
      else if s = ''done'' then Some DONE
      else if s = ''cancelled'' then Some CANCELLED
      else None)"

record Task =
  title :: string
  description :: string
  priority :: Priority
  status :: Status
  deadline :: "string option"
  tags :: "string list"
  "notes" :: string
  created_at :: string
  updated_at :: string
  id_field :: "int option"

text \<open>
  A row of the table \<^verbatim>\<open>tasks\<close>. The column \<^verbatim>\<open>tags\<close> holds \<^verbatim>\<open>json.dumps\<close> of a list of
  strings and is read back with \<^verbatim>\<open>json.loads\<close>; the two are inverse on such lists, and
  the model keeps the list itself. \<^verbatim>\<open>deadline\<close> is the one column the engine writes NULL
  into.
\<close>

record row =
  row_id :: "64 word"
  row_title :: string
  row_description :: string
  row_priority :: string
  row_status :: string
  row_deadline :: "string option"
  row_tags :: "string list"
  row_notes :: string
  row_created_at :: string
  row_updated_at :: string

text \<open>
  The database: the rows of \<^verbatim>\<open>tasks\<close> in rowid order, and the entry of
  \<^verbatim>\<open>sqlite_sequence\<close> that \<^verbatim>\<open>AUTOINCREMENT\<close> keeps (the largest rowid ever assigned).
\<close>

record db =
  tasks :: "row list"
  sqlite_sequence :: "64 word"

definition init_db :: db where
  "init_db = \<lparr>tasks = [], sqlite_sequence = 0\<rparr>"

section \<open>The engine\<close>

text \<open>\<^verbatim>\<open>_row_to_task\<close>: the keyword arguments are evaluated in order, so a bad priority
  raises before a bad status.\<close>

definition row_to_task :: "row \<Rightarrow> error + Task" where
  "row_to_task r =
     (case Priority_of (row_priority r) of
        None \<Rightarrow> Inl ValueError
      | Some p \<Rightarrow>
          (case Status_of (row_status r) of
             None \<Rightarrow> Inl ValueError
           | Some s \<Rightarrow>
               Inr \<lparr>title = row_title r, description = row_description r,
                    priority = p, status = s, deadline = row_deadline r,
                    tags = row_tags r, notes = row_notes r,
                    created_at = row_created_at r, updated_at = row_updated_at r,
                    id_field = Some (sint (row_id r))\<rparr>))"

text \<open>The list comprehension \<^verbatim>\<open>[self._row_to_task(r) for r in rows]\<close>: the first row that
  raises ends it.\<close>

fun rows_to_tasks :: "row list \<Rightarrow> error + Task list" where
  "rows_to_tasks [] = Inr []"
| "rows_to_tasks (r # rs) =
     (case row_to_task r of
        Inl e \<Rightarrow> Inl e
      | Inr t \<Rightarrow> (case rows_to_tasks rs of Inl e \<Rightarrow> Inl e | Inr ts \<Rightarrow> Inr (t # ts)))"

subsection \<open>add\<close>

text \<open>
  The rowid of an \<^verbatim>\<open>AUTOINCREMENT\<close> insert is one more than the largest rowid the table
  has ever held: the larger of the entry in \<^verbatim>\<open>sqlite_sequence\<close> and the rowids present.
  When that is the largest 64-bit integer the insert fails with \<^verbatim>\<open>SQLITE_FULL\<close>, which
  the database interface raises as \<^verbatim>\<open>OperationalError\<close>.
\<close>

definition largest_rowid :: "db \<Rightarrow> int" where
  "largest_rowid d =
     fold max (map (\<lambda>r. sint (row_id r)) (tasks d)) (sint (sqlite_sequence d))"

definition insert_task :: "db \<Rightarrow> Task \<Rightarrow> error + (db \<times> int)" where
  "insert_task d t =
     (if largest_rowid d = 9223372036854775807 then Inl OperationalError
      else
        (let n = largest_rowid d + 1;
             r = \<lparr>row_id = word_of_int n, row_title = title t,
                  row_description = description t,
                  row_priority = Priority_value (priority t),
                  row_status = Status_value (status t),
                  row_deadline = deadline t, row_tags = tags t, row_notes = notes t,
                  row_created_at = created_at t, row_updated_at = updated_at t\<rparr>
         in Inr (\<lparr>tasks = tasks d @ [r], sqlite_sequence = word_of_int n\<rparr>, n)))"

text \<open>\<^verbatim>\<open>add\<close>; \<open>now\<close> is \<^verbatim>\<open>datetime.now().isoformat()\<close>. The status is the dataclass's
  default, \<^verbatim>\<open>tags or []\<close> turns an absent list into the empty one.\<close>

definition add ::
  "db \<Rightarrow> string \<Rightarrow> string \<Rightarrow> string \<Rightarrow> string \<Rightarrow> string option \<Rightarrow> string list option
     \<Rightarrow> string \<Rightarrow> error + (db \<times> Task)" where
  "add d now title_arg description_arg priority_arg deadline_arg tags_arg notes_arg =
     (case Priority_of priority_arg of
        None \<Rightarrow> Inl ValueError
      | Some p \<Rightarrow>
          (let task = \<lparr>title = title_arg, description = description_arg,
                       priority = p, status = PENDING, deadline = deadline_arg,
                       tags = (case tags_arg of None \<Rightarrow> [] | Some ts \<Rightarrow> ts),
                       notes = notes_arg, created_at = now, updated_at = now,
                       id_field = None\<rparr>
           in (case insert_task d task of
                 Inl e \<Rightarrow> Inl e
               | Inr (d', lastrowid) \<Rightarrow> Inr (d', task\<lparr>id_field := Some lastrowid\<rparr>))))"

subsection \<open>list_tasks\<close>

text \<open>Python's truth value of an optional string: \<^verbatim>\<open>None\<close> and \<^verbatim>\<open>""\<close> are false.\<close>

fun truthy :: "string option \<Rightarrow> bool" where
  "truthy None = False"
| "truthy (Some s) = (s \<noteq> [])"

text \<open>
  SQLite's \<^verbatim>\<open>LIKE\<close> without an \<^verbatim>\<open>ESCAPE\<close> clause. It reads pattern and text as C
  strings, that is up to their first NUL, and character by character: \<open>utf8_rest\<close> is
  what \<^verbatim>\<open>sqlite3Utf8Read\<close> leaves of a text, a lead byte from \<^verbatim>\<open>0xC0\<close> on taking the
  continuation bytes (\<^verbatim>\<open>0x80\<close> to \<^verbatim>\<open>0xBF\<close>) after it along. \<^verbatim>\<open>%\<close> matches any run of
  characters, \<^verbatim>\<open>_\<close> any one character, and any other character matches itself or, for
  the ASCII letters, its other case. The texts that Python hands over are well-formed
  UTF-8, and on these comparing the bytes in turn is comparing the characters.
\<close>

definition c_string :: "string \<Rightarrow> string" where
  "c_string s = takeWhile (\<lambda>c. c \<noteq> CHR 0x00) s"

definition continuation :: "char \<Rightarrow> bool" where
  "continuation c = (let n = (of_char c :: nat) in 128 \<le> n \<and> n < 192)"

fun utf8_rest :: "string \<Rightarrow> string" where
  "utf8_rest [] = []"
| "utf8_rest (c # cs) =
     (if 192 \<le> (of_char c :: nat) then dropWhile continuation cs else cs)"

definition sqlite3Tolower :: "char \<Rightarrow> char" where
  "sqlite3Tolower c =
     (let n = (of_char c :: nat) in if 65 \<le> n \<and> n \<le> 90 then char_of (n + 32) else c)"

definition like_char :: "char \<Rightarrow> char \<Rightarrow> bool" where
  "like_char p c = (p = c \<or> sqlite3Tolower p = sqlite3Tolower c)"

function like :: "string \<Rightarrow> string \<Rightarrow> bool" where
  "like [] [] = True"
| "like [] (c # cs) = False"
| "like (p # ps) [] = (p = CHR ''%'' \<and> like ps [])"
| "like (p # ps) (c # cs) =
     (if p = CHR ''%'' then like ps (c # cs) \<or> like (p # ps) (utf8_rest (c # cs))
      else if p = CHR ''_'' then like ps (utf8_rest (c # cs))
      else like_char p c \<and> like ps cs)"
  by pat_completeness auto
termination
  by (relation "measure (\<lambda>(p, s). length p + length s)")
     (auto simp: less_Suc_eq_le le_SucI length_dropWhile_le)

definition sql_like :: "string \<Rightarrow> string \<Rightarrow> bool" where
  "sql_like pattern s = like (c_string pattern) (c_string s)"

text \<open>The pattern \<^verbatim>\<open>f"%{search}%"\<close>.\<close>

definition like_pattern :: "string \<Rightarrow> string" where
  "like_pattern term = CHR ''%'' # term @ [CHR ''%'']"

text \<open>The \<^verbatim>\<open>WHERE\<close> clause that \<^verbatim>\<open>list_tasks\<close> assembles: \<^verbatim>\<open>1=1\<close> and one conjunct for each
  argument that is true in Python's sense.\<close>

definition where_clause :: "string option \<Rightarrow> string option \<Rightarrow> string option \<Rightarrow> row \<Rightarrow> bool" where
  "where_clause status_arg priority_arg search r =
     ((if truthy status_arg then Some (row_status r) = status_arg else True) \<and>
      (if truthy priority_arg then Some (row_priority r) = priority_arg else True) \<and>
      (if truthy search
       then (case search of
               None \<Rightarrow> True
             | Some term \<Rightarrow>
                 sql_like (like_pattern term) (row_title r) \<or>
                 sql_like (like_pattern term) (row_description r))
       else True))"

text \<open>
  \<^verbatim>\<open>LIKE\<close> refuses a pattern of more than 50000 bytes
  (\<^verbatim>\<open>SQLITE_LIMIT_LIKE_PATTERN_LENGTH\<close>) with the error "LIKE or GLOB pattern too
  complex", which the database interface raises as \<^verbatim>\<open>OperationalError\<close>. The conjuncts
  of the \<^verbatim>\<open>WHERE\<close> clause are tested in their order, so the error arises when a search
  is given and some row passes the conjuncts on status and priority.
\<close>

definition like_too_complex ::
  "db \<Rightarrow> string option \<Rightarrow> string option \<Rightarrow> string option \<Rightarrow> bool" where
  "like_too_complex d status_arg priority_arg search =
     (case search of
        None \<Rightarrow> False
      | Some term \<Rightarrow>
          term \<noteq> [] \<and> 50000 < length (like_pattern term) \<and>
          list_ex (where_clause status_arg priority_arg None) (tasks d))"

text \<open>
  The \<^verbatim>\<open>ORDER BY\<close> clause: the \<^verbatim>\<open>CASE\<close> expression on the priority text, then
  \<^verbatim>\<open>deadline NULLS LAST\<close>, then \<^verbatim>\<open>created_at\<close>. The key orders lexicographically;
  its middle component puts every NULL after every text. SQL leaves the order of rows
  with equal keys open; the model keeps them in rowid order.
\<close>

definition priority_case :: "string \<Rightarrow> nat" where
  "priority_case p =
     (if p = ''urgent'' then 1 else if p = ''high'' then 2
      else if p = ''medium'' then 3 else 4)"

definition order_key :: "row \<Rightarrow> nat \<times> (bool \<times> string) \<times> string" where
  "order_key r =
     (priority_case (row_priority r),
      (case row_deadline r of None \<Rightarrow> (True, []) | Some dl \<Rightarrow> (False, dl)),
      row_created_at r)"

definition select_rows ::
  "db \<Rightarrow> string option \<Rightarrow> string option \<Rightarrow> string option \<Rightarrow> error + row list" where
  "select_rows d status_arg priority_arg search =
     (if like_too_complex d status_arg priority_arg search then Inl OperationalError
      else Inr (sort_key order_key
                  (filter (where_clause status_arg priority_arg search) (tasks d))))"

definition list_tasks ::
  "db \<Rightarrow> string option \<Rightarrow> string option \<Rightarrow> string option \<Rightarrow> error + Task list" where
  "list_tasks d status_arg priority_arg search =
     (case select_rows d status_arg priority_arg search of
        Inl e \<Rightarrow> Inl e
      | Inr rows \<Rightarrow> rows_to_tasks rows)"

subsection \<open>update_status and delete\<close>

text \<open>
  The id is bound to the statement as an SQLite INTEGER. A Python integer outside the
  signed 64-bit range does not fit: the database interface raises \<^verbatim>\<open>OverflowError\<close>
  before the statement runs. Otherwise both return \<^verbatim>\<open>cur.rowcount > 0\<close>: whether the
  statement touched a row.
\<close>

definition int64 :: "int \<Rightarrow> bool" where
  "int64 i = (- (2 ^ 63) \<le> i \<and> i < 2 ^ 63)"

definition update_status :: "db \<Rightarrow> string \<Rightarrow> int \<Rightarrow> string \<Rightarrow> error + (db \<times> bool)" where
  "update_status d now task_id new_status =
     (if int64 task_id
      then Inr (d\<lparr>tasks := map (\<lambda>r. if sint (row_id r) = task_id
                                     then r\<lparr>row_status := new_status, row_updated_at := now\<rparr>
                                     else r) (tasks d)\<rparr>,
                0 < length (filter (\<lambda>r. sint (row_id r) = task_id) (tasks d)))
      else Inl OverflowError)"

definition delete :: "db \<Rightarrow> int \<Rightarrow> error + (db \<times> bool)" where
  "delete d task_id =
     (if int64 task_id
      then Inr (d\<lparr>tasks := filter (\<lambda>r. sint (row_id r) \<noteq> task_id) (tasks d)\<rparr>,
                0 < length (filter (\<lambda>r. sint (row_id r) = task_id) (tasks d)))
      else Inl OverflowError)"

subsection \<open>is_overdue\<close>

text \<open>
  A calendar date is year, month and day; the lexicographic order of the triple is the
  order of \<^verbatim>\<open>datetime.date\<close>. \<^verbatim>\<open>is_overdue\<close> reads \<^verbatim>\<open>date.today()\<close> and calls
  \<^verbatim>\<open>date.fromisoformat\<close>, which belong to Python's library: here both are arguments,
  a parser returning \<open>None\<close> where the library raises \<^verbatim>\<open>ValueError\<close>.
\<close>

type_synonym date = "nat \<times> nat \<times> nat"

definition is_overdue :: "(string \<Rightarrow> date option) \<Rightarrow> date \<Rightarrow> Task \<Rightarrow> bool" where
  "is_overdue fromiso today t =
     (if \<not> truthy (deadline t) \<or> status t = DONE \<or> status t = CANCELLED then False
      else (case deadline t of
              None \<Rightarrow> False
            | Some dl \<Rightarrow> (case fromiso dl of None \<Rightarrow> False | Some dt \<Rightarrow> dt < today)))"

text \<open>
  The parser for the format of the command surface, \<^verbatim>\<open>YYYY-MM-DD\<close>: four, two and two
  decimal digits, a year from 1 on, a month and a day that exist. This is
  \<^verbatim>\<open>date.fromisoformat\<close> up to Python 3.10. From Python 3.11 on it reads every text of
  this format to the same date and further ISO 8601 forms (\<^verbatim>\<open>YYYYMMDD\<close>, week dates)
  as well, which this parser rejects. The theorems below are therefore stated for any
  parser, and this one serves in the examples, whose deadlines both read alike.
\<close>

definition digit :: "char \<Rightarrow> nat option" where
  "digit c =
     (let n = (of_char c :: nat) in if 48 \<le> n \<and> n \<le> 57 then Some (n - 48) else None)"

fun digits :: "string \<Rightarrow> nat \<Rightarrow> nat option" where
  "digits [] acc = Some acc"
| "digits (c # cs) acc =
     (case digit c of None \<Rightarrow> None | Some k \<Rightarrow> digits cs (10 * acc + k))"

definition is_leap :: "nat \<Rightarrow> bool" where
  "is_leap y = (y mod 4 = 0 \<and> (y mod 100 \<noteq> 0 \<or> y mod 400 = 0))"

definition days_in_month :: "nat \<Rightarrow> nat \<Rightarrow> nat" where
  "days_in_month y m =
     (if m = 2 then (if is_leap y then 29 else 28)
      else if m = 4 \<or> m = 6 \<or> m = 9 \<or> m = 11 then 30 else 31)"

definition fromisoformat :: "string \<Rightarrow> date option" where
  "fromisoformat s =
     (if length s = 10 \<and> s ! 4 = CHR ''-'' \<and> s ! 7 = CHR ''-''
      then (case digits (take 4 s) 0 of
              None \<Rightarrow> None
            | Some y \<Rightarrow>
                (case digits (take 2 (drop 5 s)) 0 of
                   None \<Rightarrow> None
                 | Some m \<Rightarrow>
                     (case digits (drop 8 s) 0 of
                        None \<Rightarrow> None
                      | Some dd \<Rightarrow>
                          if 1 \<le> y \<and> 1 \<le> m \<and> m \<le> 12 \<and> 1 \<le> dd \<and> dd \<le> days_in_month y m
                          then Some (y, m, dd) else None)))
      else None)"

subsection \<open>stats\<close>

text \<open>A Python dict keeps its keys in insertion order and is modelled as an association
  list; \<^verbatim>\<open>d[k] = d.get(k, 0) + 1\<close> is \<open>count_up\<close>.\<close>

type_synonym counter = "(string \<times> int) list"

definition dict_get :: "counter \<Rightarrow> string \<Rightarrow> int \<Rightarrow> int" where
  "dict_get dct k dflt = (case map_of dct k of None \<Rightarrow> dflt | Some v \<Rightarrow> v)"

definition count_up :: "string \<Rightarrow> counter \<Rightarrow> counter" where
  "count_up k dct = AList.update k (dict_get dct k 0 + 1) dct"

record stats_result =
  total_count :: int
  by_status :: counter
  by_priority :: counter
  overdue :: int

fun stats_loop ::
  "(string \<Rightarrow> date option) \<Rightarrow> date \<Rightarrow> Task list \<Rightarrow> counter \<times> counter \<times> int
     \<Rightarrow> counter \<times> counter \<times> int" where
  "stats_loop fromiso today [] acc = acc"
| "stats_loop fromiso today (t # ts) (bs, bp, ov) =
     stats_loop fromiso today ts
       (count_up (Status_value (status t)) bs,
        count_up (Priority_value (priority t)) bp,
        (if is_overdue fromiso today t then ov + 1 else ov))"

definition stats :: "(string \<Rightarrow> date option) \<Rightarrow> date \<Rightarrow> db \<Rightarrow> error + stats_result" where
  "stats fromiso today d =
     (case list_tasks d None None None of
        Inl e \<Rightarrow> Inl e
      | Inr ts \<Rightarrow>
          (case stats_loop fromiso today ts ([], [], 0) of
             (bs, bp, ov) \<Rightarrow>
               Inr \<lparr>total_count = int (length ts), by_status = bs, by_priority = bp,
                    overdue = ov\<rparr>))"

subsection \<open>export_json\<close>

text \<open>
  The values that occur in the exported records, and JSON documents. \<^verbatim>\<open>asdict\<close> turns a
  task into a dict in field order, leaving the two enumeration members in it; the loop of
  \<^verbatim>\<open>export_json\<close> then overwrites both entries with the members' values. \<open>dump\<close> is
  what \<^verbatim>\<open>json.dump\<close> makes of a value (a member of a \<^verbatim>\<open>str\<close>-based enumeration is
  written as its text); the layout of the file (\<^verbatim>\<open>indent=2\<close>) is not modelled, the
  document written is.
\<close>

datatype pyval =
    PNone
  | PStr string
  | PInt int
  | PPriority Priority
  | PStatus Status
  | PList "pyval list"

datatype json =
    JNull
  | JString string
  | JInt int
  | JArray "json list"
  | JObject "(string \<times> json) list"

definition asdict :: "Task \<Rightarrow> (string \<times> pyval) list" where
  "asdict t =
     [(''title'', PStr (title t)),
      (''description'', PStr (description t)),
      (''priority'', PPriority (priority t)),
      (''status'', PStatus (status t)),
      (''deadline'', (case deadline t of None \<Rightarrow> PNone | Some dl \<Rightarrow> PStr dl)),
      (''tags'', PList (map PStr (tags t))),
      (''notes'', PStr (notes t)),
      (''created_at'', PStr (created_at t)),
      (''updated_at'', PStr (updated_at t)),
      (''id'', (case id_field t of None \<Rightarrow> PNone | Some n \<Rightarrow> PInt n))]"

fun dump :: "pyval \<Rightarrow> json" where
  "dump PNone = JNull"
| "dump (PStr s) = JString s"
| "dump (PInt n) = JInt n"
| "dump (PPriority p) = JString (Priority_value p)"
| "dump (PStatus s) = JString (Status_value s)"
| "dump (PList vs) = JArray (map dump vs)"

definition dump_dict :: "(string \<times> pyval) list \<Rightarrow> json" where
  "dump_dict dct = JObject (map (\<lambda>(k, v). (k, dump v)) dct)"

fun export_loop :: "Task list \<Rightarrow> (string \<times> pyval) list list \<Rightarrow> (string \<times> pyval) list list" where
  "export_loop [] records = records"
| "export_loop (t # ts) records =
     (let dct = asdict t;
          dct = AList.update ''priority'' (PStr (Priority_value (priority t))) dct;
          dct = AList.update ''status'' (PStr (Status_value (status t))) dct
      in export_loop ts (records @ [dct]))"

text \<open>\<^verbatim>\<open>export_json\<close> returns the count; the document it writes to the file is the first
  component here.\<close>

definition export_json :: "db \<Rightarrow> error + (json \<times> int)" where
  "export_json d =
     (case list_tasks d None None None of
        Inl e \<Rightarrow> Inl e
      | Inr ts \<Rightarrow>
          (let records = export_loop ts []
           in Inr (JArray (map dump_dict records), int (length records))))"

subsection \<open>Sequences of operations\<close>

text \<open>The three operations that write, with their arguments (for \<open>Add\<close> and
  \<open>Update_status\<close> the first one is the clock reading). An operation that raises leaves
  the database as it was.\<close>

datatype operation =
    Add string string string string "string option" "string list option" string
  | Update_status string int string
  | Delete int

fun step :: "db \<Rightarrow> operation \<Rightarrow> db" where
  "step d (Add now ti de pr dl tg no) =
     (case add d now ti de pr dl tg no of Inl e \<Rightarrow> d | Inr (d', t) \<Rightarrow> d')"
| "step d (Update_status now task_id new_status) =
     (case update_status d now task_id new_status of Inl e \<Rightarrow> d | Inr (d', found) \<Rightarrow> d')"
| "step d (Delete task_id) =
     (case delete d task_id of Inl e \<Rightarrow> d | Inr (d', found) \<Rightarrow> d')"

definition run :: "db \<Rightarrow> operation list \<Rightarrow> db" where
  "run d ops = foldl step d ops"

section \<open>Notions of the specification\<close>

text \<open>The texts of the two enumerations (\<^verbatim>\<open>[x.value for x in Priority]\<close> and the same for
  \<^verbatim>\<open>Status\<close>), and the tables whose rows hold no other text in the two columns: the
  tables that are stores of tasks in the sense of the data model.\<close>

definition Priority_values :: "string list" where
  "Priority_values = [''low'', ''medium'', ''high'', ''urgent'']"

definition Status_values :: "string list" where
  "Status_values = [''pending'', ''in_progress'', ''done'', ''cancelled'']"

definition enum_row :: "row \<Rightarrow> bool" where
  "enum_row r = (row_priority r \<in> set Priority_values \<and> row_status r \<in> set Status_values)"

definition enum_table :: "db \<Rightarrow> bool" where
  "enum_table d = list_all enum_row (tasks d)"

text \<open>
  The documented order of a listing, in the specification's words: the rank of the
  priority (urgent before high before medium before low), then the deadline ascending
  with absent deadlines last, then the creation time ascending. Deadlines and creation
  times are compared as the texts they are stored as. \<open>in_order a b\<close> says that \<open>a\<close> may
  stand before \<open>b\<close>.
\<close>

fun priority_rank :: "Priority \<Rightarrow> nat" where
  "priority_rank URGENT = 1"
| "priority_rank HIGH = 2"
| "priority_rank MEDIUM = 3"
| "priority_rank LOW = 4"

fun deadline_le :: "string option \<Rightarrow> string option \<Rightarrow> bool" where
  "deadline_le None None = True"
| "deadline_le None (Some y) = False"
| "deadline_le (Some x) None = True"
| "deadline_le (Some x) (Some y) = (x \<le> y)"

definition in_order :: "Task \<Rightarrow> Task \<Rightarrow> bool" where
  "in_order a b =
     (priority_rank (priority a) < priority_rank (priority b) \<or>
      priority_rank (priority a) = priority_rank (priority b) \<and>
        (deadline_le (deadline a) (deadline b) \<and> deadline a \<noteq> deadline b \<or>
         deadline a = deadline b \<and> created_at a \<le> created_at b))"

text \<open>The sort key of the query, read off a task instead of a row.\<close>

definition task_key :: "Task \<Rightarrow> nat \<times> (bool \<times> string) \<times> string" where
  "task_key t =
     (priority_rank (priority t),
      (case deadline t of None \<Rightarrow> (True, []) | Some dl \<Rightarrow> (False, dl)),
      created_at t)"

text \<open>
  The operations that hand \<^verbatim>\<open>update_status\<close> one of the four status texts, as
  the command surface does (\<^verbatim>\<open>choices=[x.value for x in Status]\<close>), and the rows
  whose priority is one of the four priority texts.
\<close>

definition status_arg_ok :: "operation \<Rightarrow> bool" where
  "status_arg_ok x =
     (case x of Update_status now task_id new_status \<Rightarrow> new_status \<in> set Status_values
      | _ \<Rightarrow> True)"

definition priority_ok :: "row \<Rightarrow> bool" where
  "priority_ok r = (row_priority r \<in> set Priority_values)"

text \<open>
  Overdue in the specification's words: the deadline is set, its date is strictly before
  today, and the status is neither done nor cancelled. A deadline has a date when the
  parser reads one from its text.
\<close>

definition overdue_spec :: "(string \<Rightarrow> date option) \<Rightarrow> date \<Rightarrow> Task \<Rightarrow> bool" where
  "overdue_spec fromiso today t =
     ((case deadline t of
         None \<Rightarrow> False
       | Some dl \<Rightarrow> (case fromiso dl of None \<Rightarrow> False | Some dt \<Rightarrow> dt < today)) \<and>
      status t \<noteq> DONE \<and> status t \<noteq> CANCELLED)"

text \<open>The sum of the counts of a counter (\<^verbatim>\<open>sum(d.values())\<close>).\<close>

definition counts_sum :: "counter \<Rightarrow> int" where
  "counts_sum dct = sum_list (map snd dct)"

text \<open>
  The flat record of a task in the specification's words: the fields in their order,
  the two enumerations as their text values, the tags as an array; and the lookup of a
  field in a JSON object.
\<close>

definition flat_record :: "Task \<Rightarrow> json" where
  "flat_record t =
     JObject
       [(''title'', JString (title t)),
        (''description'', JString (description t)),
        (''priority'', JString (Priority_value (priority t))),
        (''status'', JString (Status_value (status t))),
        (''deadline'', (case deadline t of None \<Rightarrow> JNull | Some dl \<Rightarrow> JString dl)),
        (''tags'', JArray (map JString (tags t))),
        (''notes'', JString (notes t)),
        (''created_at'', JString (created_at t)),
        (''updated_at'', JString (updated_at t)),
        (''id'', (case id_field t of None \<Rightarrow> JNull | Some n \<Rightarrow> JInt n))]"

definition field :: "string \<Rightarrow> json \<Rightarrow> json option" where
  "field k j = (case j of JObject kvs \<Rightarrow> map_of kvs k | _ \<Rightarrow> None)"

definition plain_record :: "json \<Rightarrow> bool" where
  "plain_record j =
     (case (field ''priority'' j, field ''status'' j, field ''tags'' j) of
        (Some (JString p), Some (JString s), Some (JArray tg)) \<Rightarrow>
          p \<in> set Priority_values \<and> s \<in> set Status_values \<and>
          list_all (\<lambda>x. case x of JString y \<Rightarrow> True | _ \<Rightarrow> False) tg
      | _ \<Rightarrow> False)"

text \<open>
  What one pass of the loop of \<^verbatim>\<open>export_json\<close> appends for a task.
\<close>

definition export_record :: "Task \<Rightarrow> (string \<times> pyval) list" where
  "export_record t =
     AList.update ''status'' (PStr (Status_value (status t)))
       (AList.update ''priority'' (PStr (Priority_value (priority t))) (asdict t))"

text \<open>
  Occurrence of a term in a text as a run of consecutive characters, each compared with
  \<open>eq\<close>. With equality of characters this is the case-sensitive substring of the
  specification (Python's \<^verbatim>\<open>term in text\<close>); with \<open>like_char\<close> the ASCII letters match
  regardless of case.
\<close>

fun match_here :: "(char \<Rightarrow> char \<Rightarrow> bool) \<Rightarrow> string \<Rightarrow> string \<Rightarrow> bool" where
  "match_here eq [] s = True"
| "match_here eq (p # ps) [] = False"
| "match_here eq (p # ps) (c # cs) = (eq p c \<and> match_here eq ps cs)"

fun occurs :: "(char \<Rightarrow> char \<Rightarrow> bool) \<Rightarrow> string \<Rightarrow> string \<Rightarrow> bool" where
  "occurs eq term [] = (term = [])"
| "occurs eq term (c # cs) = (match_here eq term (c # cs) \<or> occurs eq term cs)"

definition contains :: "string \<Rightarrow> string \<Rightarrow> bool" where
  "contains term s = occurs (=) term s"






section \<open>Example data\<close>

text \<open>The scenario of the specification: task A (low, no deadline), B (urgent, due
  yesterday) and C (urgent, due tomorrow), added in this order on 2026-11-03.\<close>

definition example_db :: db where
  "example_db =
     \<lparr>tasks =
        [\<lparr>row_id = 1, row_title = ''A'', row_description = [],
          row_priority = ''low'', row_status = ''pending'', row_deadline = None,
          row_tags = [], row_notes = [],
          row_created_at = ''2026-11-03T10:00:00'',
          row_updated_at = ''2026-11-03T10:00:00''\<rparr>,
         \<lparr>row_id = 2, row_title = ''B'', row_description = [],
          row_priority = ''urgent'', row_status = ''pending'',
          row_deadline = Some ''2026-11-02'', row_tags = [''x'', ''y''], row_notes = [],
          row_created_at = ''2026-11-03T10:00:01'',
          row_updated_at = ''2026-11-03T10:00:01''\<rparr>,
         \<lparr>row_id = 3, row_title = ''C'', row_description = [],
          row_priority = ''urgent'', row_status = ''pending'',
          row_deadline = Some ''2026-11-04'', row_tags = [], row_notes = [],
          row_created_at = ''2026-11-03T10:00:02'',
          row_updated_at = ''2026-11-03T10:00:02''\<rparr>],
      sqlite_sequence = 3\<rparr>"

definition example_tasks :: "Task list" where
  "example_tasks =
     [\<lparr>title = ''B'', description = [], priority = URGENT, status = PENDING,
       deadline = Some ''2026-11-02'', tags = [''x'', ''y''], notes = [],
       created_at = ''2026-11-03T10:00:01'', updated_at = ''2026-11-03T10:00:01'',
       id_field = Some 2\<rparr>,
      \<lparr>title = ''C'', description = [], priority = URGENT, status = PENDING,
       deadline = Some ''2026-11-04'', tags = [], notes = [],
       created_at = ''2026-11-03T10:00:02'', updated_at = ''2026-11-03T10:00:02'',
       id_field = Some 3\<rparr>,
      \<lparr>title = ''A'', description = [], priority = LOW, status = PENDING,
       deadline = None, tags = [], notes = [],
       created_at = ''2026-11-03T10:00:00'', updated_at = ''2026-11-03T10:00:00'',
       id_field = Some 1\<rparr>]"

definition example_today :: date where
  "example_today = (2026, 11, 3)"

definition example_task :: Task where
  "example_task =
     \<lparr>title = ''B'', description = [], priority = URGENT, status = PENDING,
      deadline = Some ''2026-11-02'', tags = [''x'', ''y''], notes = [],
      created_at = ''2026-11-03T10:00:01'', updated_at = ''2026-11-03T10:00:01'',
      id_field = Some 2\<rparr>"

text \<open>A database whose rowid sequence is exhausted, and a title with a NUL character.\<close>

definition full_db :: db where
  "full_db = \<lparr>tasks = [], sqlite_sequence = 9223372036854775807\<rparr>"

definition nul_title :: string where
  "nul_title = [CHR ''a'', CHR 0x00, CHR ''b'']"

section \<open>Auxiliary facts\<close>

lemma Priority_of_Some: "s \<in> set Priority_values \<Longrightarrow> \<exists>p. Priority_of s = Some p"
  by (auto simp: Priority_values_def Priority_of_def)

lemma Status_of_Some: "s \<in> set Status_values \<Longrightarrow> \<exists>p. Status_of s = Some p"
  by (auto simp: Status_values_def Status_of_def)

lemma Priority_of_value: "Priority_of s = Some p \<Longrightarrow> s = Priority_value p"
  by (auto simp: Priority_of_def split: if_splits)

lemma priority_case_rank: "Priority_of s = Some p \<Longrightarrow> priority_case s = priority_rank p"
  by (auto simp: Priority_of_def priority_case_def split: if_splits)

lemma enum_row_to_task: "enum_row r \<Longrightarrow> \<exists>t. row_to_task r = Inr t"
  unfolding enum_row_def row_to_task_def
  using Priority_of_Some [of "row_priority r"] Status_of_Some [of "row_status r"]
  by auto

lemma rows_to_tasks_Inr:
  "list_all enum_row rs \<Longrightarrow>
     \<exists>ts. rows_to_tasks rs = Inr ts \<and> list_all2 (\<lambda>r t. row_to_task r = Inr t) rs ts"
proof (induction rs)
  case Nil
  then show ?case by simp
next
  case (Cons r rs)
  from Cons.prems obtain t where t: "row_to_task r = Inr t"
    using enum_row_to_task by auto
  from Cons obtain ts where "rows_to_tasks rs = Inr ts"
    "list_all2 (\<lambda>r t. row_to_task r = Inr t) rs ts" by auto
  with t show ?case by simp
qed

lemma order_key_task: "row_to_task r = Inr t \<Longrightarrow> order_key r = task_key t"
  by (auto simp: row_to_task_def order_key_def task_key_def priority_case_rank
      split: option.splits)

lemma task_key_le: "task_key a \<le> task_key b \<longleftrightarrow> in_order a b"
  by (cases "deadline a"; cases "deadline b")
     (auto simp: task_key_def in_order_def less_eq_prod_def less_prod_def)

lemma sorted_wrt_list_all2:
  "list_all2 R xs ys \<Longrightarrow> sorted_wrt P xs \<Longrightarrow>
     (\<And>x x' y y'. R x y \<Longrightarrow> R x' y' \<Longrightarrow> P x x' \<Longrightarrow> Q y y') \<Longrightarrow> sorted_wrt Q ys"
proof (induction rule: list_all2_induct)
  case Nil
  then show ?case by simp
next
  case (Cons x xs y ys)
  have "\<forall>y' \<in> set ys. Q y y'"
  proof
    fix y' assume "y' \<in> set ys"
    with Cons.hyps(2) obtain x' where "x' \<in> set xs" "R x' y'"
      by (metis in_set_conv_nth list_all2_conv_all_nth)
    with Cons show "Q y y'" by auto
  qed
  with Cons show ?case by auto
qed

lemma list_all2_mset_map:
  "list_all2 (\<lambda>r t. f r = g t) rs ts \<Longrightarrow> mset (map g ts) = mset (map f rs)"
  by (induction rule: list_all2_induct) auto

lemma select_rows_all: "select_rows d None None None = Inr (sort_key order_key (tasks d))"
  by (simp add: select_rows_def where_clause_def like_too_complex_def)

lemma example_enum: "enum_table example_db"
  by (simp add: enum_table_def example_db_def enum_row_def Priority_values_def
      Status_values_def)

lemma example_list: "list_tasks example_db None None None = Inr example_tasks"
  by (simp add: list_tasks_def select_rows_def like_too_complex_def where_clause_def
      example_db_def example_tasks_def order_key_def priority_case_def row_to_task_def
      Priority_of_def Status_of_def less_eq_prod_def less_prod_def)

lemma sint_int64: "int64 (sint (w :: 64 word))"
  using sint_ge [of w] sint_lt [of w] by (simp add: int64_def)

lemma update_status_absent:
  assumes "int64 task_id" and "task_id \<notin> (\<lambda>r. sint (row_id r)) ` set (tasks d)"
  shows "update_status d now task_id new_status = Inr (d, False)"
proof -
  have "map (\<lambda>r. if sint (row_id r) = task_id
                then r\<lparr>row_status := new_status, row_updated_at := now\<rparr> else r) (tasks d)
             = tasks d"
    using assms(2) by (intro map_idI) auto
  moreover have "filter (\<lambda>r. sint (row_id r) = task_id) (tasks d) = []"
    using assms(2) by (auto simp: filter_empty_conv)
  ultimately show ?thesis using assms(1) by (simp add: update_status_def)
qed

lemma delete_absent:
  assumes "int64 task_id" and "task_id \<notin> (\<lambda>r. sint (row_id r)) ` set (tasks d)"
  shows "delete d task_id = Inr (d, False)"
proof -
  have "filter (\<lambda>r. sint (row_id r) \<noteq> task_id) (tasks d) = tasks d"
    using assms(2) by (auto simp: filter_id_conv)
  moreover have "filter (\<lambda>r. sint (row_id r) = task_id) (tasks d) = []"
    using assms(2) by (auto simp: filter_empty_conv)
  ultimately show ?thesis using assms(1) by (simp add: delete_def)
qed

lemma filter_id_nonempty:
  "task_id \<in> (\<lambda>r. sint (row_id r)) ` set rs \<Longrightarrow>
     0 < length (filter (\<lambda>r. sint (row_id r) = task_id) rs)"
  by (induction rs) auto

lemma present_int64: "task_id \<in> (\<lambda>r. sint (row_id r)) ` set rs \<Longrightarrow> int64 task_id"
  using sint_int64 by auto

lemma fold_max_ge: "(a::int) \<le> fold max xs a \<and> (\<forall>x \<in> set xs. x \<le> fold max xs a)"
proof (induction xs arbitrary: a)
  case Nil
  then show ?case by simp
next
  case (Cons x xs)
  have "max x a \<le> fold max xs (max x a)" using Cons.IH by blast
  moreover have "\<forall>y \<in> set xs. y \<le> fold max xs (max x a)" using Cons.IH by blast
  ultimately show ?case by auto
qed

lemma fold_max_in: "fold max xs (a::int) \<in> insert a (set xs)"
proof (induction xs arbitrary: a)
  case Nil
  then show ?case by simp
next
  case (Cons x xs)
  have "fold max xs (max x a) \<in> insert (max x a) (set xs)" using Cons.IH by blast
  moreover have "max x a = x \<or> max x a = a" by (simp add: max_def)
  ultimately show ?case by auto
qed

lemma largest_rowid_int64: "int64 (largest_rowid d)"
proof -
  have "largest_rowid d \<in>
          insert (sint (sqlite_sequence d)) (set (map (\<lambda>r. sint (row_id r)) (tasks d)))"
    unfolding largest_rowid_def by (rule fold_max_in)
  then show ?thesis using sint_int64 by auto
qed

lemma largest_rowid_fresh: "largest_rowid d + 1 \<notin> (\<lambda>r. sint (row_id r)) ` set (tasks d)"
proof
  assume "largest_rowid d + 1 \<in> (\<lambda>r. sint (row_id r)) ` set (tasks d)"
  then have "largest_rowid d + 1 \<in> set (map (\<lambda>r. sint (row_id r)) (tasks d))" by simp
  then have "largest_rowid d + 1 \<le> largest_rowid d"
    unfolding largest_rowid_def using fold_max_ge by blast
  then show False by simp
qed

lemma largest_rowid_gt: "sint (sqlite_sequence d) < largest_rowid d + 1"
  using fold_max_ge [of "sint (sqlite_sequence d)" "map (\<lambda>r. sint (row_id r)) (tasks d)"]
  by (simp add: largest_rowid_def)

lemma next_rowid_word:
  assumes "largest_rowid d \<noteq> 9223372036854775807"
  shows "int64 (largest_rowid d + 1) \<and>
         sint (word_of_int (largest_rowid d + 1) :: 64 word) = largest_rowid d + 1"
proof -
  have b: "- (2 ^ 63) \<le> largest_rowid d + 1 \<and> largest_rowid d + 1 < 2 ^ 63"
    using largest_rowid_int64 [of d] assms by (simp add: int64_def)
  then have "signed_take_bit 63 (largest_rowid d + 1) = largest_rowid d + 1"
    by (simp add: signed_take_bit_int_eq_self)
  moreover have "sint (word_of_int (largest_rowid d + 1) :: 64 word)
                   = signed_take_bit 63 (largest_rowid d + 1)"
    unfolding sint_sbintrunc' by simp
  ultimately show ?thesis using b by (simp only: int64_def simp_thms)
qed

lemma Priority_value_in: "Priority_value p \<in> set Priority_values"
  by (cases p) (simp_all add: Priority_values_def)

lemma step_priority_ok:
  "list_all priority_ok (tasks d) \<Longrightarrow> list_all priority_ok (tasks (step d x))"
proof (cases x)
  case (Add now ti de pr dl tg no)
  assume a: "list_all priority_ok (tasks d)"
  show ?thesis
  proof (cases "Priority_of pr")
    case None
    with a Add show ?thesis by (simp add: add_def)
  next
    case (Some p)
    with a Add show ?thesis
      by (simp add: add_def insert_task_def Let_def priority_ok_def Priority_value_in)
  qed
next
  case (Update_status now task_id new_status)
  assume "list_all priority_ok (tasks d)"
  with Update_status show ?thesis
    by (auto simp: update_status_def list_all_iff priority_ok_def)
next
  case (Delete task_id)
  assume "list_all priority_ok (tasks d)"
  with Delete show ?thesis
    by (auto simp: delete_def list_all_iff)
qed

lemma step_enum_table:
  "enum_table d \<Longrightarrow> status_arg_ok x \<Longrightarrow> enum_table (step d x)"
proof (cases x)
  case (Add now ti de pr dl tg no)
  assume a: "enum_table d"
  show ?thesis
  proof (cases "Priority_of pr")
    case None
    with a Add show ?thesis by (simp add: add_def)
  next
    case (Some p)
    with a Add show ?thesis
      by (simp add: add_def insert_task_def Let_def enum_table_def enum_row_def
          Priority_value_in Status_values_def)
  qed
next
  case (Update_status now task_id new_status)
  assume "enum_table d" "status_arg_ok x"
  with Update_status show ?thesis
    by (auto simp: update_status_def list_all_iff enum_table_def enum_row_def status_arg_ok_def)
next
  case (Delete task_id)
  assume "enum_table d"
  with Delete show ?thesis
    by (auto simp: delete_def list_all_iff enum_table_def)
qed

lemma run_priority_ok:
  "list_all priority_ok (tasks d) \<Longrightarrow> list_all priority_ok (tasks (run d ops))"
  unfolding run_def by (induction ops arbitrary: d) (simp_all add: step_priority_ok)

lemma run_enum_table:
  "enum_table d \<Longrightarrow> list_all status_arg_ok ops \<Longrightarrow> enum_table (run d ops)"
  unfolding run_def by (induction ops arbitrary: d) (simp_all add: step_enum_table)

lemma fromisoformat_empty: "fromisoformat [] = None"
  by (simp add: fromisoformat_def)

lemma fromisoformat_example: "fromisoformat ''2026-11-02'' = Some (2026, 11, 2)"
  by (simp add: fromisoformat_def digit_def days_in_month_def)

lemma fromisoformat_example2: "fromisoformat ''2026-11-04'' = Some (2026, 11, 4)"
  by (simp add: fromisoformat_def digit_def days_in_month_def)

lemma counts_sum_update:
  "counts_sum (AList.update k v dct) = counts_sum dct + v - dict_get dct k 0"
  by (induction dct) (auto simp: counts_sum_def dict_get_def)

lemma counts_sum_count_up: "counts_sum (count_up k dct) = counts_sum dct + 1"
  by (simp add: count_up_def counts_sum_update)

lemma stats_loop_sums:
  "stats_loop fromiso today ts (bs, bp, ov) = (bs', bp', ov') \<Longrightarrow>
     counts_sum bs' = counts_sum bs + int (length ts) \<and>
     counts_sum bp' = counts_sum bp + int (length ts) \<and>
     ov' = ov + int (length (filter (is_overdue fromiso today) ts))"
proof (induction ts arbitrary: bs bp ov)
  case Nil
  then show ?case by simp
next
  case (Cons t ts)
  from Cons.prems have
    "stats_loop fromiso today ts
       (count_up (Status_value (status t)) bs, count_up (Priority_value (priority t)) bp,
        (if is_overdue fromiso today t then ov + 1 else ov)) = (bs', bp', ov')"
    by simp
  from Cons.IH [OF this] show ?case
    by (simp add: counts_sum_count_up)
qed

lemma list_tasks_all:
  assumes "enum_table d"
  shows "\<exists>ts. list_tasks d None None None = Inr ts \<and> sorted_wrt in_order ts \<and>
           mset (map Inr ts) = mset (map row_to_task (tasks d)) \<and>
           length ts = length (tasks d)"
proof -
  let ?rs = "sort_key order_key (tasks d)"
  have "list_all enum_row ?rs"
    using assms by (simp add: enum_table_def list_all_iff)
  then obtain ts where ts: "rows_to_tasks ?rs = Inr ts"
    and rel: "list_all2 (\<lambda>r t. row_to_task r = Inr t) ?rs ts"
    using rows_to_tasks_Inr by blast
  have "sorted_wrt (\<lambda>r r'. order_key r \<le> order_key r') ?rs"
    using sorted_sort_key [of order_key "tasks d"] by (simp add: sorted_map)
  with rel have "sorted_wrt in_order ts"
    by (rule sorted_wrt_list_all2) (simp add: order_key_task task_key_le)
  moreover have "mset (map Inr ts) = mset (map row_to_task ?rs)"
    using rel by (rule list_all2_mset_map)
  moreover have "length ts = length (tasks d)"
    using list_all2_lengthD [OF rel] by simp
  ultimately show ?thesis
    using ts by (simp add: list_tasks_def select_rows_all)
qed

lemma example_stats:
  "stats fromisoformat example_today example_db =
     Inr \<lparr>total_count = 3, by_status = [(''pending'', 3)],
          by_priority = [(''urgent'', 2), (''low'', 1)], overdue = 1\<rparr>"
  by (simp add: stats_def example_list example_tasks_def count_up_def dict_get_def
      is_overdue_def fromisoformat_example fromisoformat_example2 example_today_def
      less_prod_def)

lemma export_loop_map: "export_loop ts records = records @ map export_record ts"
  by (induction ts arbitrary: records) (simp_all add: export_record_def Let_def)

lemma dump_export_record: "dump_dict (export_record t) = flat_record t"
  by (cases "deadline t"; cases "id_field t")
     (simp_all add: dump_dict_def export_record_def asdict_def flat_record_def comp_def)

lemma Status_value_in: "Status_value s \<in> set Status_values"
  by (cases s) (simp_all add: Status_values_def)

lemma plain_flat_record: "plain_record (flat_record t)"
  by (simp add: plain_record_def flat_record_def field_def Priority_value_in Status_value_in
      list_all_iff)

lemma match_here_iff:
  "match_here eq ps s \<longleftrightarrow> (\<exists>v w. s = v @ w \<and> list_all2 eq ps v)"
proof (induction eq ps s rule: match_here.induct)
  case (1 eq s)
  then show ?case by simp
next
  case (2 eq p ps)
  then show ?case by simp
next
  case (3 eq p ps c cs)
  show ?case
  proof
    assume "match_here eq (p # ps) (c # cs)"
    with 3 obtain v w where "cs = v @ w" "list_all2 eq ps v" "eq p c" by auto
    then have "c # cs = (c # v) @ w \<and> list_all2 eq (p # ps) (c # v)" by simp
    then show "\<exists>v w. c # cs = v @ w \<and> list_all2 eq (p # ps) v" by blast
  next
    assume "\<exists>v w. c # cs = v @ w \<and> list_all2 eq (p # ps) v"
    then obtain v w where vw: "c # cs = v @ w" "list_all2 eq (p # ps) v" by blast
    then obtain v' where "v = c # v'" "eq p c" "list_all2 eq ps v'" "cs = v' @ w"
      by (cases v) auto
    with 3 show "match_here eq (p # ps) (c # cs)" by auto
  qed
qed

lemma occurs_iff:
  "occurs eq term s \<longleftrightarrow> (\<exists>u v w. s = u @ v @ w \<and> list_all2 eq term v)"
proof (induction s)
  case Nil
  then show ?case by (auto simp: list_all2_Nil2)
next
  case (Cons c cs)
  show ?case
  proof
    assume "occurs eq term (c # cs)"
    then consider "match_here eq term (c # cs)" | "occurs eq term cs" by auto
    then show "\<exists>u v w. c # cs = u @ v @ w \<and> list_all2 eq term v"
    proof cases
      case 1
      then obtain v w where "c # cs = [] @ v @ w \<and> list_all2 eq term v"
        by (auto simp: match_here_iff)
      then show ?thesis by blast
    next
      case 2
      with Cons obtain u v w where "cs = u @ v @ w" "list_all2 eq term v" by blast
      then have "c # cs = (c # u) @ v @ w \<and> list_all2 eq term v" by simp
      then show ?thesis by blast
    qed
  next
    assume "\<exists>u v w. c # cs = u @ v @ w \<and> list_all2 eq term v"
    then obtain u v w where uvw: "c # cs = u @ v @ w" "list_all2 eq term v" by blast
    show "occurs eq term (c # cs)"
    proof (cases u)
      case Nil
      with uvw have "match_here eq term (c # cs)" by (auto simp: match_here_iff)
      then show ?thesis by simp
    next
      case (Cons a u')
      with uvw have "cs = u' @ v @ w" by simp
      with uvw(2) Cons.IH have "occurs eq term cs" by blast
      then show ?thesis by simp
    qed
  qed
qed
















text \<open>What the bounds on the search term and the texts keep out: \<^verbatim>\<open>LIKE\<close> does not see
  what follows a NUL, and a term of 49999 bytes makes a pattern \<^verbatim>\<open>LIKE\<close> refuses.\<close>

lemma like_stops_at_nul:
  "contains ''b'' nul_title \<and> \<not> sql_like (like_pattern ''b'') nul_title"
  by (simp add: contains_def nul_title_def sql_like_def like_pattern_def c_string_def
      like_char_def sqlite3Tolower_def)

lemma like_pattern_too_long:
  "list_tasks example_db None None (Some (replicate 49999 CHR ''a'')) = Inl OperationalError"
proof -
  have "tasks example_db \<noteq> []" by (simp add: example_db_def)
  then have "list_ex (where_clause None None None) (tasks example_db)"
    by (cases "tasks example_db") (simp_all add: where_clause_def)
  moreover have "length (like_pattern (replicate 49999 CHR ''a'')) = 50001"
    unfolding like_pattern_def by (simp only: length_Cons length_append length_replicate list.size)
  moreover have "replicate 49999 CHR ''a'' \<noteq> []"
    by (simp only: replicate_empty)
  ultimately have "like_too_complex example_db None None (Some (replicate 49999 CHR ''a''))"
    by (simp only: like_too_complex_def option.case) simp
  then show ?thesis by (simp only: list_tasks_def select_rows_def if_True sum.case)
qed






text \<open>
  Deadlines are ordered as texts. For deadlines in the format \<^verbatim>\<open>YYYY-MM-DD\<close> that is the
  order of their dates.
\<close>

lemma digit_bound: "digit c = Some k \<Longrightarrow> k \<le> 9"
  by (auto simp: digit_def Let_def split: if_splits)

lemma digit_less: "digit c = Some k \<Longrightarrow> digit c' = Some k' \<Longrightarrow> (c < c') = (k < k')"
  by (auto simp: digit_def Let_def less_char_def split: if_splits)

lemma digit_eq: "digit c = Some k \<Longrightarrow> digit c' = Some k' \<Longrightarrow> (c = c') = (k = k')"
proof -
  assume a: "digit c = Some k" "digit c' = Some k'"
  define n n' where "n = (of_char c :: nat)" and "n' = (of_char c' :: nat)"
  from a have "48 \<le> n \<and> k = n - 48" "48 \<le> n' \<and> k' = n' - 48"
    by (auto simp: digit_def Let_def n_def n'_def split: if_splits)
  then have "(k = k') = (n = n')" by arith
  also have "\<dots> = (c = c')" unfolding n_def n'_def by simp
  finally show ?thesis by simp
qed

lemma digits_order:
  "length xs = length ys \<Longrightarrow> digits xs a = Some u \<Longrightarrow> digits ys b = Some v \<Longrightarrow>
     (a < b \<longrightarrow> u < v) \<and> (b < a \<longrightarrow> v < u) \<and>
     (a = b \<longrightarrow> (xs < ys) = (u < v) \<and> (xs = ys) = (u = v))"
proof (induction xs ys arbitrary: a b rule: list_induct2)
  case Nil
  then show ?case by simp
next
  case (Cons x xs y ys)
  from Cons.prems obtain k k' where k: "digit x = Some k" "digit y = Some k'"
    and u: "digits xs (10 * a + k) = Some u" and v: "digits ys (10 * b + k') = Some v"
    by (auto split: option.splits)
  note IH = Cons.IH [OF u v]
  have kb: "k \<le> 9" "k' \<le> 9" using k digit_bound by blast+
  have lt: "a < b \<longrightarrow> u < v"
  proof
    assume "a < b"
    then have "10 * a + k < 10 * b + k'" using kb by linarith
    with IH show "u < v" by blast
  qed
  have gt: "b < a \<longrightarrow> v < u"
  proof
    assume "b < a"
    then have "10 * b + k' < 10 * a + k" using kb by linarith
    with IH show "v < u" by blast
  qed
  have eq: "a = b \<longrightarrow> (x # xs < y # ys) = (u < v) \<and> (x # xs = y # ys) = (u = v)"
  proof
    assume ab: "a = b"
    consider "k < k'" | "k = k'" | "k' < k" by linarith
    then show "(x # xs < y # ys) = (u < v) \<and> (x # xs = y # ys) = (u = v)"
    proof cases
      case 1
      then have "10 * a + k < 10 * b + k'" using ab by simp
      with IH have "u < v" by blast
      moreover have "x < y" using 1 k digit_less by blast
      ultimately show ?thesis by auto
    next
      case 2
      then have "x = y" using k digit_eq by blast
      with 2 ab IH show ?thesis by simp
    next
      case 3
      then have "10 * b + k' < 10 * a + k" using ab by simp
      with IH have "v < u" by blast
      moreover have "y < x" using 3 k digit_less by blast
      ultimately show ?thesis by auto
    qed
  qed
  from lt gt eq show ?case by blast
qed

lemma append_le_append:
  fixes xs ys :: string
  shows "length xs = length ys \<Longrightarrow> (xs @ r \<le> ys @ r') = (xs < ys \<or> xs = ys \<and> r \<le> r')"
  by (induction xs ys rule: list_induct2) auto

lemma fromisoformat_shape:
  assumes "fromisoformat s = Some (y, m, dd)"
  shows "\<exists>ys ms ds. s = ys @ CHR ''-'' # ms @ CHR ''-'' # ds \<and>
           length ys = 4 \<and> length ms = 2 \<and> length ds = 2 \<and>
           digits ys 0 = Some y \<and> digits ms 0 = Some m \<and> digits ds 0 = Some dd"
proof -
  from assms have len: "length s = 10" and sep: "s ! 4 = CHR ''-''" "s ! 7 = CHR ''-''"
    and dg: "digits (take 4 s) 0 = Some y" "digits (take 2 (drop 5 s)) 0 = Some m"
      "digits (drop 8 s) 0 = Some dd"
    by (auto simp: fromisoformat_def split: if_splits option.splits)
  have "s = take 4 s @ drop 4 s" by simp
  also have "drop 4 s = s ! 4 # drop 5 s"
    using len Cons_nth_drop_Suc [of 4 s] by simp
  also have "drop 5 s = take 2 (drop 5 s) @ drop 2 (drop 5 s)"
    by (simp only: append_take_drop_id)
  also have "drop 2 (drop 5 s) = s ! 7 # drop 8 s"
    using len Cons_nth_drop_Suc [of 7 s] by simp
  finally have "s = take 4 s @ CHR ''-'' # take 2 (drop 5 s) @ CHR ''-'' # drop 8 s"
    using sep by simp
  moreover have "length (take 4 s) = 4" "length (take 2 (drop 5 s)) = 2" "length (drop 8 s) = 2"
    using len by simp_all
  ultimately show ?thesis using dg by blast
qed

lemma fromisoformat_order:
  assumes "fromisoformat s = Some a" and "fromisoformat s' = Some b"
  shows "(s \<le> s') = (a \<le> b)"
proof -
  obtain y m dd where a: "a = (y, m, dd)" by (cases a) auto
  obtain y' m' dd' where b: "b = (y', m', dd')" by (cases b) auto
  from fromisoformat_shape [of s y m dd] assms(1) a obtain ys ms ds where
    s: "s = ys @ CHR ''-'' # ms @ CHR ''-'' # ds" "length ys = 4" "length ms = 2" "length ds = 2"
      "digits ys 0 = Some y" "digits ms 0 = Some m" "digits ds 0 = Some dd" by blast
  from fromisoformat_shape [of s' y' m' dd'] assms(2) b obtain ys' ms' ds' where
    s': "s' = ys' @ CHR ''-'' # ms' @ CHR ''-'' # ds'" "length ys' = 4" "length ms' = 2"
      "length ds' = 2"
      "digits ys' 0 = Some y'" "digits ms' 0 = Some m'" "digits ds' 0 = Some dd'" by blast
  have Y: "(ys < ys') = (y < y')" "(ys = ys') = (y = y')"
    using digits_order [of ys ys' 0 y 0 y'] s s' by simp_all
  have M: "(ms < ms') = (m < m')" "(ms = ms') = (m = m')"
    using digits_order [of ms ms' 0 m 0 m'] s s' by simp_all
  have D: "(ds < ds') = (dd < dd')" "(ds = ds') = (dd = dd')"
    using digits_order [of ds ds' 0 dd 0 dd'] s s' by simp_all
  have "(s \<le> s') = (ys < ys' \<or> ys = ys' \<and> (ms < ms' \<or> ms = ms' \<and> ds \<le> ds'))"
    using s(2-4) s'(2-4) unfolding s(1) s'(1)
    by (simp add: append_le_append)
  also have "\<dots> = (y < y' \<or> y = y' \<and> (m < m' \<or> m = m' \<and> dd \<le> dd'))"
    using Y M D by (auto simp: le_less)
  also have "\<dots> = (a \<le> b)"
    unfolding a b by (auto simp: less_eq_prod_def less_prod_def)
  finally show ?thesis .
qed

section \<open>The claims\<close>

text \<open>
  C1. On every table of tasks, whatever the order they were inserted in, \<^verbatim>\<open>list_tasks\<close>
  with no filter returns the stored tasks, each once, in the documented order: by
  priority rank, then by deadline ascending with absent deadlines last, then by
  creation time ascending. A deadline is absent when the column is NULL (the task was
  added with \<^verbatim>\<open>deadline=None\<close>); deadlines and creation times ascend as texts.
\<close>

theorem list_tasks_sorted:
  assumes "enum_table d"
  shows "\<exists>ts. list_tasks d None None None = Inr ts \<and> sorted_wrt in_order ts \<and>
           mset (map Inr ts) = mset (map row_to_task (tasks d))"
  using list_tasks_all [OF assms] by blast

theorem list_tasks_sorted_witness:
  "enum_table example_db \<and>
   list_tasks example_db None None None = Inr example_tasks \<and>
   sorted_wrt in_order example_tasks \<and>
   mset (map Inr example_tasks) = mset (map row_to_task (tasks example_db))"
  using list_tasks_sorted [of example_db] example_enum by (simp add: example_list)




text \<open>
  C3, as stated, fails: \<^verbatim>\<open>add\<close> builds the task with \<^verbatim>\<open>Priority(priority)\<close>, which
  raises \<^verbatim>\<open>ValueError\<close> for a text that is not a priority, before the store is touched.
\<close>

theorem add_invalid_priority:
  "add init_db ''2026-11-03T10:00:00'' ''A'' [] ''bogus'' None None [] = Inl ValueError"
  by (simp add: add_def Priority_of_def)

text \<open>
  C3, amended. For every input whose priority is one of \<^verbatim>\<open>low\<close>, \<^verbatim>\<open>medium\<close>,
  \<^verbatim>\<open>high\<close>, \<^verbatim>\<open>urgent\<close>, \<^verbatim>\<open>add\<close> fails only when the storage does, which in the model is
  the rowid sequence being exhausted (\<^verbatim>\<open>OperationalError\<close>). Otherwise it returns the
  task with the arguments it was given, the one clock reading as \<^verbatim>\<open>created_at\<close> and
  \<^verbatim>\<open>updated_at\<close>, status pending and an identifier that no row of the table has and that
  is larger than any the table has assigned before, and it appends exactly the row of
  that task to the table. For every other priority text \<^verbatim>\<open>add\<close> raises \<^verbatim>\<open>ValueError\<close>,
  whatever the database and the other arguments are, and writes nothing.
\<close>

theorem add_outcomes:
  "if priority_arg \<in> set Priority_values
   then (if largest_rowid d = 9223372036854775807
         then add d now title_arg description_arg priority_arg deadline_arg tags_arg notes_arg
                = Inl OperationalError
         else (\<exists>d' t n.
           add d now title_arg description_arg priority_arg deadline_arg tags_arg notes_arg
             = Inr (d', t) \<and>
           created_at t = now \<and> updated_at t = now \<and> status t = PENDING \<and>
           id_field t = Some n \<and> n \<notin> (\<lambda>r. sint (row_id r)) ` set (tasks d) \<and>
           sint (sqlite_sequence d) < n \<and> sint (sqlite_sequence d') = n \<and>
           title t = title_arg \<and> description t = description_arg \<and>
           Priority_value (priority t) = priority_arg \<and> deadline t = deadline_arg \<and>
           tags t = (case tags_arg of None \<Rightarrow> [] | Some ts \<Rightarrow> ts) \<and> notes t = notes_arg \<and>
           (\<exists>w. sint w = n \<and>
              tasks d' = tasks d @
                [\<lparr>row_id = w, row_title = title_arg, row_description = description_arg,
                  row_priority = priority_arg, row_status = ''pending'',
                  row_deadline = deadline_arg, row_tags = tags t, row_notes = notes_arg,
                  row_created_at = now, row_updated_at = now\<rparr>])))
   else add d now title_arg description_arg priority_arg deadline_arg tags_arg notes_arg
          = Inl ValueError"
proof (cases "priority_arg \<in> set Priority_values")
  case False
  then have "Priority_of priority_arg = None"
    by (auto simp: Priority_of_def Priority_values_def)
  with False show ?thesis by (simp add: add_def)
next
  case True
  then obtain p where p: "Priority_of priority_arg = Some p"
    using Priority_of_Some by blast
  then have v: "Priority_value p = priority_arg"
    using Priority_of_value by simp
  show ?thesis
  proof (cases "largest_rowid d = 9223372036854775807")
    case full: True
    with True p show ?thesis by (simp add: add_def insert_task_def)
  next
    case free: False
    from next_rowid_word [OF free] have
      w: "sint (word_of_int (largest_rowid d + 1) :: 64 word) = largest_rowid d + 1" by blast
    let ?t = "\<lparr>title = title_arg, description = description_arg, priority = p,
               status = PENDING, deadline = deadline_arg,
               tags = (case tags_arg of None \<Rightarrow> [] | Some ts \<Rightarrow> ts), notes = notes_arg,
               created_at = now, updated_at = now,
               id_field = Some (largest_rowid d + 1)\<rparr>"
    let ?r = "\<lparr>row_id = word_of_int (largest_rowid d + 1), row_title = title_arg,
               row_description = description_arg, row_priority = priority_arg,
               row_status = ''pending'', row_deadline = deadline_arg,
               row_tags = (case tags_arg of None \<Rightarrow> [] | Some ts \<Rightarrow> ts),
               row_notes = notes_arg, row_created_at = now, row_updated_at = now\<rparr>"
    let ?d = "\<lparr>tasks = tasks d @ [?r],
               sqlite_sequence = word_of_int (largest_rowid d + 1)\<rparr>"
    have a: "add d now title_arg description_arg priority_arg deadline_arg tags_arg notes_arg
               = Inr (?d, ?t)"
      using p v free by (simp add: add_def insert_task_def Let_def)
    have "\<exists>w. sint w = largest_rowid d + 1 \<and> tasks ?d = tasks d @
            [\<lparr>row_id = w, row_title = title_arg, row_description = description_arg,
              row_priority = priority_arg, row_status = ''pending'',
              row_deadline = deadline_arg, row_tags = tags ?t, row_notes = notes_arg,
              row_created_at = now, row_updated_at = now\<rparr>]"
      using w by (intro exI [of _ "word_of_int (largest_rowid d + 1)"]) simp
    with a v w largest_rowid_fresh [of d] largest_rowid_gt [of d] True free
    show ?thesis
      by (simp only: if_True if_False simp_thms)
         (intro exI [of _ ?d] exI [of _ ?t] exI [of _ "largest_rowid d + 1"], simp)
  qed
qed

theorem add_outcomes_witness:
  "''urgent'' \<in> set Priority_values \<and> largest_rowid init_db \<noteq> 9223372036854775807 \<and>
   add init_db ''2026-11-03T10:00:00'' ''A'' [] ''urgent'' None None [] =
     Inr (\<lparr>tasks = [\<lparr>row_id = 1, row_title = ''A'', row_description = [],
                       row_priority = ''urgent'', row_status = ''pending'',
                       row_deadline = None, row_tags = [], row_notes = [],
                       row_created_at = ''2026-11-03T10:00:00'',
                       row_updated_at = ''2026-11-03T10:00:00''\<rparr>],
           sqlite_sequence = 1\<rparr>,
          \<lparr>title = ''A'', description = [], priority = URGENT, status = PENDING,
           deadline = None, tags = [], notes = [],
           created_at = ''2026-11-03T10:00:00'', updated_at = ''2026-11-03T10:00:00'',
           id_field = Some 1\<rparr>) \<and>
   largest_rowid full_db = 9223372036854775807 \<and>
   add full_db ''2026-11-03T10:00:00'' ''A'' [] ''urgent'' None None [] = Inl OperationalError \<and>
   ''bogus'' \<notin> set Priority_values \<and>
   add example_db ''2026-11-03T10:00:00'' ''A'' [] ''bogus'' None None [] = Inl ValueError"
  using add_outcomes [of "''urgent''" init_db "''2026-11-03T10:00:00''" "''A''" "[]" None None "[]"]
    add_outcomes [of "''urgent''" full_db "''2026-11-03T10:00:00''" "''A''" "[]" None None "[]"]
    add_outcomes [of "''bogus''" example_db "''2026-11-03T10:00:00''" "''A''" "[]" None None "[]"]
  by (simp add: Priority_values_def add_def Priority_of_def insert_task_def largest_rowid_def
      init_db_def full_db_def)

text \<open>
  C4. For an id that is in the table, \<^verbatim>\<open>update_status\<close> returns true, and of the table
  it changes nothing but the status and \<^verbatim>\<open>updated_at\<close> of the rows with that id: their
  id, title, description, priority, deadline, tags, notes and \<^verbatim>\<open>created_at\<close> stay, every
  other row stays as it is, and no row is added or removed. This holds for every new
  status text.
\<close>

theorem update_status_frame:
  assumes "task_id \<in> (\<lambda>r. sint (row_id r)) ` set (tasks d)"
  shows "\<exists>d'. update_status d now task_id new_status = Inr (d', True) \<and>
           sqlite_sequence d' = sqlite_sequence d \<and>
           length (tasks d') = length (tasks d) \<and>
           (\<forall>i < length (tasks d).
              row_id (tasks d' ! i) = row_id (tasks d ! i) \<and>
              row_title (tasks d' ! i) = row_title (tasks d ! i) \<and>
              row_description (tasks d' ! i) = row_description (tasks d ! i) \<and>
              row_priority (tasks d' ! i) = row_priority (tasks d ! i) \<and>
              row_deadline (tasks d' ! i) = row_deadline (tasks d ! i) \<and>
              row_tags (tasks d' ! i) = row_tags (tasks d ! i) \<and>
              row_notes (tasks d' ! i) = row_notes (tasks d ! i) \<and>
              row_created_at (tasks d' ! i) = row_created_at (tasks d ! i) \<and>
              (if sint (row_id (tasks d ! i)) = task_id
               then row_status (tasks d' ! i) = new_status \<and> row_updated_at (tasks d' ! i) = now
               else tasks d' ! i = tasks d ! i))"
  using filter_id_nonempty [OF assms] present_int64 [OF assms]
  by (simp add: update_status_def)

theorem update_status_frame_witness:
  "2 \<in> (\<lambda>r. sint (row_id r)) ` set (tasks example_db) \<and>
   update_status example_db ''2026-11-03T12:00:00'' 2 ''done'' =
     Inr (example_db\<lparr>tasks := [tasks example_db ! 0,
         (tasks example_db ! 1)\<lparr>row_status := ''done'', row_updated_at := ''2026-11-03T12:00:00''\<rparr>,
         tasks example_db ! 2]\<rparr>, True)"
  using update_status_frame [of 2 example_db "''2026-11-03T12:00:00''" "''done''"]
  by (simp add: example_db_def update_status_def int64_def)

text \<open>
  C5, as stated, fails. The id reaches the statement as an SQLite INTEGER, and for an
  id outside the signed 64-bit range (none is in the table) the database interface
  raises \<^verbatim>\<open>OverflowError\<close>: with the id \<open>2\<^sup>6\<^sup>3\<close> neither \<^verbatim>\<open>update_status\<close> nor
  \<^verbatim>\<open>delete\<close> returns false, both raise.
\<close>

theorem not_found_overflow:
  "9223372036854775808 \<notin> (\<lambda>r. sint (row_id r)) ` set (tasks example_db) \<and>
   update_status example_db ''2026-11-03T12:00:00'' 9223372036854775808 ''done''
     = Inl OverflowError \<and>
   delete example_db 9223372036854775808 = Inl OverflowError"
  by (simp add: example_db_def update_status_def delete_def int64_def)

text \<open>
  C5, amended. For an id that is not in the table and lies in the signed 64-bit range,
  \<^verbatim>\<open>update_status\<close> and \<^verbatim>\<open>delete\<close> both return false and leave the database as it was:
  not finding the id is reported by the result alone, not by an exception. For an id
  outside that range both raise \<^verbatim>\<open>OverflowError\<close> and write nothing.
\<close>

theorem not_found_unchanged:
  assumes "task_id \<notin> (\<lambda>r. sint (row_id r)) ` set (tasks d)"
  shows "if int64 task_id
         then update_status d now task_id new_status = Inr (d, False) \<and>
              delete d task_id = Inr (d, False)
         else update_status d now task_id new_status = Inl OverflowError \<and>
              delete d task_id = Inl OverflowError"
proof (cases "int64 task_id")
  case True
  with assms show ?thesis by (simp add: update_status_absent delete_absent)
next
  case False
  then show ?thesis by (simp add: update_status_def delete_def)
qed

theorem not_found_unchanged_witness:
  "7 \<notin> (\<lambda>r. sint (row_id r)) ` set (tasks example_db) \<and> int64 7 \<and>
   update_status example_db ''2026-11-03T12:00:00'' 7 ''done'' = Inr (example_db, False) \<and>
   delete example_db 7 = Inr (example_db, False) \<and>
   9223372036854775808 \<notin> (\<lambda>r. sint (row_id r)) ` set (tasks example_db) \<and>
   \<not> int64 9223372036854775808 \<and>
   delete example_db 9223372036854775808 = Inl OverflowError"
  using not_found_unchanged [of 7 example_db "''2026-11-03T12:00:00''" "''done''"]
    not_found_unchanged [of 9223372036854775808 example_db "''2026-11-03T12:00:00''" "''done''"]
  by (simp add: example_db_def int64_def)

text \<open>
  C6. For every parser that reads no date from the empty text (as
  \<^verbatim>\<open>date.fromisoformat\<close> does not), \<^verbatim>\<open>is_overdue\<close> holds exactly when the deadline is set,
  its date is strictly before today and the status is neither done nor cancelled. In
  particular a task without deadline is never overdue, and a task that is overdue is
  pending or in progress, stays overdue under either of these two statuses, and is no
  longer overdue once its status is done or cancelled.
\<close>

theorem overdue_iff:
  assumes "fromiso [] = None"
  shows "is_overdue fromiso today t = overdue_spec fromiso today t \<and>
         (deadline t = None \<longrightarrow> \<not> is_overdue fromiso today t) \<and>
         (is_overdue fromiso today t \<longrightarrow>
            (status t = PENDING \<or> status t = IN_PROGRESS) \<and>
            is_overdue fromiso today (t\<lparr>status := PENDING\<rparr>) \<and>
            is_overdue fromiso today (t\<lparr>status := IN_PROGRESS\<rparr>) \<and>
            \<not> is_overdue fromiso today (t\<lparr>status := DONE\<rparr>) \<and>
            \<not> is_overdue fromiso today (t\<lparr>status := CANCELLED\<rparr>))"
proof -
  have "is_overdue fromiso today t = overdue_spec fromiso today t"
  proof (cases "deadline t")
    case None
    then show ?thesis by (simp add: is_overdue_def overdue_spec_def)
  next
    case (Some dl)
    with assms show ?thesis
      by (cases "dl = []") (auto simp: is_overdue_def overdue_spec_def split: option.splits)
  qed
  moreover have "deadline t = None \<longrightarrow> \<not> is_overdue fromiso today t"
    by (simp add: is_overdue_def)
  moreover have "is_overdue fromiso today t \<longrightarrow>
            (status t = PENDING \<or> status t = IN_PROGRESS) \<and>
            is_overdue fromiso today (t\<lparr>status := PENDING\<rparr>) \<and>
            is_overdue fromiso today (t\<lparr>status := IN_PROGRESS\<rparr>) \<and>
            \<not> is_overdue fromiso today (t\<lparr>status := DONE\<rparr>) \<and>
            \<not> is_overdue fromiso today (t\<lparr>status := CANCELLED\<rparr>)"
    by (cases "status t") (auto simp: is_overdue_def split: if_splits)
  ultimately show ?thesis by blast
qed

theorem overdue_iff_witness:
  "fromisoformat [] = None \<and>
   is_overdue fromisoformat example_today example_task \<and>
   overdue_spec fromisoformat example_today example_task \<and>
   \<not> is_overdue fromisoformat example_today (example_task\<lparr>status := DONE\<rparr>) \<and>
   \<not> is_overdue fromisoformat example_today (example_task\<lparr>status := CANCELLED\<rparr>) \<and>
   \<not> is_overdue fromisoformat example_today (example_task\<lparr>deadline := None\<rparr>)"
  using overdue_iff [of fromisoformat example_today example_task]
    overdue_iff [of fromisoformat example_today "example_task\<lparr>deadline := None\<rparr>"]
  by (simp add: fromisoformat_empty fromisoformat_example is_overdue_def overdue_spec_def
      example_task_def example_today_def less_prod_def)

text \<open>
  C7. On every table of tasks \<^verbatim>\<open>stats\<close> returns a result whose total is the number of
  stored tasks, whose counts by status add up to the total, whose counts by priority add
  up to the total, and whose overdue count is the number of stored tasks for which
  \<^verbatim>\<open>is_overdue\<close> holds.
\<close>

theorem stats_sums:
  assumes "enum_table d"
  shows "\<exists>st ts. stats fromiso today d = Inr st \<and>
           list_tasks d None None None = Inr ts \<and>
           mset (map Inr ts) = mset (map row_to_task (tasks d)) \<and>
           total_count st = int (length (tasks d)) \<and>
           counts_sum (by_status st) = total_count st \<and>
           counts_sum (by_priority st) = total_count st \<and>
           overdue st = int (length (filter (is_overdue fromiso today) ts))"
proof -
  from list_tasks_all [OF assms] obtain ts where
    ts: "list_tasks d None None None = Inr ts"
    and ms: "mset (map Inr ts) = mset (map row_to_task (tasks d))"
    and len: "length ts = length (tasks d)" by blast
  obtain bs bp ov where loop: "stats_loop fromiso today ts ([], [], 0) = (bs, bp, ov)"
    by (cases "stats_loop fromiso today ts ([], [], 0)") auto
  from stats_loop_sums [OF loop] have
    "counts_sum bs = int (length ts)" "counts_sum bp = int (length ts)"
    "ov = int (length (filter (is_overdue fromiso today) ts))"
    by (simp_all add: counts_sum_def)
  with ts ms len loop show ?thesis
    by (simp add: stats_def)
qed

theorem stats_sums_witness:
  "enum_table example_db \<and>
   stats fromisoformat example_today example_db =
     Inr \<lparr>total_count = 3, by_status = [(''pending'', 3)],
          by_priority = [(''urgent'', 2), (''low'', 1)], overdue = 1\<rparr> \<and>
   counts_sum [(''pending'', 3)] = 3 \<and> counts_sum [(''urgent'', 2), (''low'', 1)] = 3 \<and>
   int (length (filter (is_overdue fromisoformat example_today) example_tasks)) = 1"
  using stats_sums [of example_db fromisoformat example_today] example_enum
  by (simp add: example_stats example_list counts_sum_def)

text \<open>
  C8. On every table of tasks \<^verbatim>\<open>export_json\<close> writes a JSON array that holds, in the
  order of the unfiltered listing (the documented sort order), exactly one flat record
  for each stored task, with priority and status as the plain texts of their values and
  the tags as an array of strings; the count it returns is the number of records in the
  array, which is the number of stored tasks.
\<close>

theorem export_json_records:
  assumes "enum_table d"
  shows "\<exists>ts records.
           list_tasks d None None None = Inr ts \<and> sorted_wrt in_order ts \<and>
           mset (map Inr ts) = mset (map row_to_task (tasks d)) \<and>
           export_json d = Inr (JArray records, int (length records)) \<and>
           records = map flat_record ts \<and>
           length records = length (tasks d) \<and>
           list_all plain_record records"
proof -
  from list_tasks_all [OF assms] obtain ts where
    ts: "list_tasks d None None None = Inr ts" "sorted_wrt in_order ts"
      "mset (map Inr ts) = mset (map row_to_task (tasks d))"
      "length ts = length (tasks d)" by blast
  have "export_json d = Inr (JArray (map flat_record ts), int (length ts))"
    using ts(1) by (simp add: export_json_def export_loop_map dump_export_record)
  moreover have "list_all plain_record (map flat_record ts)"
    by (simp add: list_all_iff plain_flat_record)
  ultimately show ?thesis using ts by simp
qed

theorem export_json_records_witness:
  "enum_table example_db \<and>
   export_json example_db =
     Inr (JArray
       [JObject
         [(''title'', JString ''B''), (''description'', JString []),
          (''priority'', JString ''urgent''), (''status'', JString ''pending''),
          (''deadline'', JString ''2026-11-02''),
          (''tags'', JArray [JString ''x'', JString ''y'']), (''notes'', JString []),
          (''created_at'', JString ''2026-11-03T10:00:01''),
          (''updated_at'', JString ''2026-11-03T10:00:01''), (''id'', JInt 2)],
        JObject
         [(''title'', JString ''C''), (''description'', JString []),
          (''priority'', JString ''urgent''), (''status'', JString ''pending''),
          (''deadline'', JString ''2026-11-04''), (''tags'', JArray []),
          (''notes'', JString []),
          (''created_at'', JString ''2026-11-03T10:00:02''),
          (''updated_at'', JString ''2026-11-03T10:00:02''), (''id'', JInt 3)],
        JObject
         [(''title'', JString ''A''), (''description'', JString []),
          (''priority'', JString ''low''), (''status'', JString ''pending''),
          (''deadline'', JNull), (''tags'', JArray []), (''notes'', JString []),
          (''created_at'', JString ''2026-11-03T10:00:00''),
          (''updated_at'', JString ''2026-11-03T10:00:00''), (''id'', JInt 1)]],
      3)"
  using export_json_records [of example_db] example_enum
  by (simp add: export_json_def example_list example_tasks_def Let_def asdict_def
      dump_dict_def)

text \<open>
  C9, as stated, fails: \<^verbatim>\<open>update_status\<close> writes the text it is given, and the table
  has no constraint on the column. After an \<^verbatim>\<open>add\<close> and an \<^verbatim>\<open>update_status\<close> of the new
  task to \<^verbatim>\<open>bogus\<close> the table holds a status outside the enumeration.
\<close>

theorem status_not_enforced:
  "\<not> enum_table (run init_db
        [Add ''2026-11-03T10:00:00'' ''A'' [] ''low'' None None [],
         Update_status ''2026-11-03T10:00:05'' 1 ''bogus''])"
  by (simp add: run_def init_db_def add_def Priority_of_def insert_task_def largest_rowid_def
      update_status_def int64_def enum_table_def enum_row_def Status_values_def)

text \<open>
  C9, amended. After every sequence of \<^verbatim>\<open>add\<close>, \<^verbatim>\<open>update_status\<close> and \<^verbatim>\<open>delete\<close> on
  the empty database every stored priority is one of the four priority texts; and every
  stored status is one of the four status texts provided each \<^verbatim>\<open>update_status\<close> of the
  sequence was given one of them.
\<close>

theorem enumerations_kept:
  "list_all priority_ok (tasks (run init_db ops)) \<and>
   (list_all status_arg_ok ops \<longrightarrow> enum_table (run init_db ops))"
proof -
  have "list_all priority_ok (tasks init_db)" "enum_table init_db"
    by (simp_all add: init_db_def enum_table_def)
  then show ?thesis
    using run_priority_ok run_enum_table by blast
qed

theorem enumerations_kept_witness:
  "list_all status_arg_ok
     [Add ''2026-11-03T10:00:00'' ''A'' [] ''low'' None None [],
      Add ''2026-11-03T10:00:01'' ''B'' [] ''bogus'' None None [],
      Update_status ''2026-11-03T10:00:05'' 1 ''done'',
      Delete 5] \<and>
   enum_table (run init_db
     [Add ''2026-11-03T10:00:00'' ''A'' [] ''low'' None None [],
      Add ''2026-11-03T10:00:01'' ''B'' [] ''bogus'' None None [],
      Update_status ''2026-11-03T10:00:05'' 1 ''done'',
      Delete 5])"
  using enumerations_kept [of
     "[Add ''2026-11-03T10:00:00'' ''A'' [] ''low'' None None [],
      Add ''2026-11-03T10:00:01'' ''B'' [] ''bogus'' None None [],
      Update_status ''2026-11-03T10:00:05'' 1 ''done'',
      Delete 5]"]
  by (simp add: status_arg_ok_def Status_values_def)

text \<open>
  C10. The empty string as status, priority or search argument of \<^verbatim>\<open>list_tasks\<close> is the
  same as leaving the argument out, whatever the other arguments are; with all three
  empty the result is that of the unfiltered call.
\<close>

theorem list_tasks_empty_string:
  "list_tasks d (Some '''') priority_arg search = list_tasks d None priority_arg search \<and>
   list_tasks d status_arg (Some '''') search = list_tasks d status_arg None search \<and>
   list_tasks d status_arg priority_arg (Some '''') = list_tasks d status_arg priority_arg None \<and>
   list_tasks d (Some '''') (Some '''') (Some '''') = list_tasks d None None None"
proof -
  have w: "\<And>p s. where_clause (Some []) p s = where_clause None p s"
    "\<And>st s. where_clause st (Some []) s = where_clause st None s"
    "\<And>st p. where_clause st p (Some []) = where_clause st p None"
    by (rule ext, simp add: where_clause_def)+
  have l: "\<And>p. like_too_complex d (Some []) p search = like_too_complex d None p search"
    "\<And>st. like_too_complex d st (Some []) search = like_too_complex d st None search"
    "\<And>st p. like_too_complex d st p (Some []) = like_too_complex d st p None"
    by (cases search; simp add: like_too_complex_def w)+
  have n: "\<And>st p. \<not> like_too_complex d st p None"
    by (simp add: like_too_complex_def)
  have "select_rows d (Some []) priority_arg search = select_rows d None priority_arg search"
    "select_rows d status_arg (Some []) search = select_rows d status_arg None search"
    "select_rows d status_arg priority_arg (Some []) = select_rows d status_arg priority_arg None"
    "select_rows d (Some []) (Some []) (Some []) = select_rows d None None None"
    by (simp_all add: select_rows_def l w n)
  then show ?thesis
    by (simp add: list_tasks_def)
qed

end
